theory Spec2Isabelle
  imports Main "HOL-Library.Word"
begin

unbundle bit_operations_syntax

section \<open>Vocabularies and containers of \<^verbatim>\<open>Nodes.hpp\<close>\<close>

text \<open>
  The two closed enumerations of the node layer, \<^verbatim>\<open>enum class Type\<close> and
  \<^verbatim>\<open>enum class Operator\<close>, with the enumerators in the order of the source.
  \<^verbatim>\<open>Type::INT\<close> and \<^verbatim>\<open>Type::CHAR\<close> are written \<open>INT_type\<close> and \<open>CHAR_type\<close>, since
  \<open>INT\<close> and \<open>CHAR\<close> are notation of the logic.
\<close>

datatype Type = INT_type | CHAR_type | FLOAT | BOOL | DOUBLE | VOID | UNKNOWN

datatype Operator =
    PLUS | MINUS | TIMES | DIV
  | SHL | SHR
  | LT | GT | GTE | LTE | EQ

text \<open>
  Modelled from the spec: \<^verbatim>\<open>location\<close> comes from the generated header
  \<^verbatim>\<open>location.hh\<close>, which is not among the sources. The spec calls it an opaque
  source-position value (line, column, or range); it is a range between two positions
  here. \<open>location_default\<close> stands for the value a freshly constructed node holds before
  the producer sets it.
\<close>

datatype position = position (position_line: nat) (position_column: nat)

datatype location = location (location_begin: position) (location_end: position)

definition location_default :: location where
  "location_default = location (position 1 1) (position 1 1)"

text \<open>
  Modelled from the spec: \<^verbatim>\<open>Pointer\<close>, \<^verbatim>\<open>PointerList\<close> and \<^verbatim>\<open>PointerSet\<close> are
  declared in \<^verbatim>\<open>Pointers.hpp\<close>, which is not among the sources. The spec describes an
  owned slot holding zero or one child, an owned ordered sequence, and an owned
  deduplicated set in which duplicates are collapsed by a caller-supplied equality and
  hash rule. The slot is \<open>nullptr\<close> or points to a child; the sequence is a list that
  \<^verbatim>\<open>push_back\<close> extends at the end; the set is a list of pairwise unequal elements in
  which \<^verbatim>\<open>insert\<close> keeps the element already stored when an equal one arrives. The
  hash only selects the bucket searched for an equal element, so with a hash that
  agrees with the equality the rule is the equality.

  A mandatory child (one whose accessor dereferences the pointer without a test) is
  held by value: the model covers nodes built from non-null pointers. Only the slots
  read through \<^verbatim>\<open>maybe_return\<close> are of type \<open>Pointer\<close>.
\<close>

datatype 'a Pointer = nullptr | Ptr 'a

type_synonym 'a PointerList = "'a list"

type_synonym 'a PointerSet = "'a list"

definition push_back :: "'a \<Rightarrow> 'a PointerList \<Rightarrow> 'a PointerList" where
  "push_back x xs = xs @ [x]"

definition PointerSet_insert :: "('a \<Rightarrow> 'a \<Rightarrow> bool) \<Rightarrow> 'a \<Rightarrow> 'a PointerSet \<Rightarrow> 'a PointerSet" where
  "PointerSet_insert eq x xs = (if list_ex (\<lambda>y. eq y x) xs then xs else xs @ [x])"

fun PointerSet_inv :: "('a \<Rightarrow> 'a \<Rightarrow> bool) \<Rightarrow> 'a PointerSet \<Rightarrow> bool" where
  "PointerSet_inv eq [] = True"
| "PointerSet_inv eq (x # xs) = (\<not> list_ex (\<lambda>y. eq y x) xs \<and> PointerSet_inv eq xs)"

text \<open>
  The macro \<^verbatim>\<open>maybe_return(val)\<close>: \<^verbatim>\<open>if ((val) != nullptr) return *(val); else return boost::none;\<close>
  with \<^verbatim>\<open>boost::optional\<close> as \<open>option\<close>.
\<close>

fun maybe_return :: "'a Pointer \<Rightarrow> 'a option" where
  "maybe_return (Ptr v) = Some v"
| "maybe_return nullptr = None"

text \<open>\<^verbatim>\<open>size_t\<close> and \<^verbatim>\<open>long\<close> on the LP64 targets the compiler is built for; a
  \<^verbatim>\<open>double\<close> is kept as its bit pattern, which no operation of this layer inspects.\<close>

type_synonym size_t = "64 word"

type_synonym long = "64 word"

type_synonym double = "64 word"

section \<open>The location capability\<close>

record Localizable =
  loc :: location

definition setLocation :: "location \<Rightarrow> 'a Localizable_scheme \<Rightarrow> 'a Localizable_scheme" where
  "setLocation l n = n\<lparr>loc := l\<rparr>"

definition getLocation :: "'a Localizable_scheme \<Rightarrow> location" where
  "getLocation n = loc n"

definition Localizable_new :: Localizable where
  "Localizable_new = \<lparr>loc = location_default\<rparr>"

section \<open>Simple expressions\<close>

record Id = Localizable +
  Id_value :: string

definition Id_new :: "string \<Rightarrow> Id" where
  "Id_new c = \<lparr>loc = location_default, Id_value = c\<rparr>"

definition Id_getValue :: "Id \<Rightarrow> string" where
  "Id_getValue i = Id_value i"

definition Id_eq :: "Id \<Rightarrow> Id \<Rightarrow> bool" where
  "Id_eq a b = (Id_getValue a = Id_getValue b)"

record Integer = Localizable +
  Integer_value :: long

definition Integer_new :: "long \<Rightarrow> Integer" where
  "Integer_new i = \<lparr>loc = location_default, Integer_value = i\<rparr>"

definition Integer_getValue :: "Integer \<Rightarrow> long" where
  "Integer_getValue n = Integer_value n"

record Float = Localizable +
  Float_value :: double

definition Float_new :: "double \<Rightarrow> Float" where
  "Float_new f = \<lparr>loc = location_default, Float_value = f\<rparr>"

definition Float_getValue :: "Float \<Rightarrow> double" where
  "Float_getValue n = Float_value n"

section \<open>Expressions\<close>

text \<open>
  The abstract class \<^verbatim>\<open>Expression\<close> is the sum of its concrete subclasses. A
  \<^verbatim>\<open>FunctionCall\<close> and a \<^verbatim>\<open>BinaryExpression\<close> own expressions, so the three types are
  defined together; their first field is the \<^verbatim>\<open>Localizable\<close> base.
\<close>

datatype Expression =
    IdE Id
  | IntegerE Integer
  | FloatE Float
  | FunctionCallE FunctionCall
  | BinaryExpressionE BinaryExpression
and FunctionCall =
    FunctionCall_obj Localizable Id "Expression PointerList"
and BinaryExpression =
    BinaryExpression_obj Localizable Expression Operator Expression

definition FunctionCall_new :: "Id \<Rightarrow> Expression PointerList \<Rightarrow> FunctionCall" where
  "FunctionCall_new n a = FunctionCall_obj Localizable_new n a"

fun FunctionCall_getName :: "FunctionCall \<Rightarrow> Id" where
  "FunctionCall_getName (FunctionCall_obj b n a) = n"

fun FunctionCall_getArgs :: "FunctionCall \<Rightarrow> Expression PointerList" where
  "FunctionCall_getArgs (FunctionCall_obj b n a) = a"

definition BinaryExpression_new :: "Expression \<Rightarrow> Operator \<Rightarrow> Expression \<Rightarrow> BinaryExpression" where
  "BinaryExpression_new l op r = BinaryExpression_obj Localizable_new l op r"

fun BinaryExpression_getLeft :: "BinaryExpression \<Rightarrow> Expression" where
  "BinaryExpression_getLeft (BinaryExpression_obj b l op r) = l"

fun BinaryExpression_getRight :: "BinaryExpression \<Rightarrow> Expression" where
  "BinaryExpression_getRight (BinaryExpression_obj b l op r) = r"

fun BinaryExpression_getOperator :: "BinaryExpression \<Rightarrow> Operator" where
  "BinaryExpression_getOperator (BinaryExpression_obj b l op r) = op"

text \<open>The ten subclasses of \<^verbatim>\<open>BinaryExpression\<close> only fix the operator in their
  constructor.\<close>

definition ExpLt :: "Expression \<Rightarrow> Expression \<Rightarrow> BinaryExpression" where
  "ExpLt l r = BinaryExpression_new l LT r"

definition ExpGt :: "Expression \<Rightarrow> Expression \<Rightarrow> BinaryExpression" where
  "ExpGt l r = BinaryExpression_new l GT r"

definition ExpLte :: "Expression \<Rightarrow> Expression \<Rightarrow> BinaryExpression" where
  "ExpLte l r = BinaryExpression_new l LTE r"

definition ExpGte :: "Expression \<Rightarrow> Expression \<Rightarrow> BinaryExpression" where
  "ExpGte l r = BinaryExpression_new l GTE r"

definition ExpPlus :: "Expression \<Rightarrow> Expression \<Rightarrow> BinaryExpression" where
  "ExpPlus l r = BinaryExpression_new l PLUS r"

definition ExpMinus :: "Expression \<Rightarrow> Expression \<Rightarrow> BinaryExpression" where
  "ExpMinus l r = BinaryExpression_new l MINUS r"

definition ExpTimes :: "Expression \<Rightarrow> Expression \<Rightarrow> BinaryExpression" where
  "ExpTimes l r = BinaryExpression_new l TIMES r"

definition ExpDiv :: "Expression \<Rightarrow> Expression \<Rightarrow> BinaryExpression" where
  "ExpDiv l r = BinaryExpression_new l DIV r"

definition ExpShl :: "Expression \<Rightarrow> Expression \<Rightarrow> BinaryExpression" where
  "ExpShl l r = BinaryExpression_new l SHL r"

definition ExpShr :: "Expression \<Rightarrow> Expression \<Rightarrow> BinaryExpression" where
  "ExpShr l r = BinaryExpression_new l SHR r"

subsection \<open>Partial expressions\<close>

record SemiExpression = Localizable +
  SemiExpression_op :: Operator
  SemiExpression_left :: Expression

definition SemiExpression_new :: "Operator \<Rightarrow> Expression \<Rightarrow> SemiExpression" where
  "SemiExpression_new op l =
     \<lparr>loc = location_default, SemiExpression_op = op, SemiExpression_left = l\<rparr>"

definition SemiExpression_getLeft :: "SemiExpression \<Rightarrow> Expression" where
  "SemiExpression_getLeft e = SemiExpression_left e"

definition SemiExpression_getOperator :: "SemiExpression \<Rightarrow> Operator" where
  "SemiExpression_getOperator e = SemiExpression_op e"

definition SemiExpEq :: "Expression \<Rightarrow> SemiExpression" where
  "SemiExpEq l = SemiExpression_new EQ l"

definition SemiExpLt :: "Expression \<Rightarrow> SemiExpression" where
  "SemiExpLt l = SemiExpression_new LT l"

definition SemiExpGt :: "Expression \<Rightarrow> SemiExpression" where
  "SemiExpGt l = SemiExpression_new GT l"

definition SemiExpLte :: "Expression \<Rightarrow> SemiExpression" where
  "SemiExpLte l = SemiExpression_new LTE l"

definition SemiExpGte :: "Expression \<Rightarrow> SemiExpression" where
  "SemiExpGte l = SemiExpression_new GTE l"

definition SemiExpPlus :: "Expression \<Rightarrow> SemiExpression" where
  "SemiExpPlus l = SemiExpression_new PLUS l"

definition SemiExpMinus :: "Expression \<Rightarrow> SemiExpression" where
  "SemiExpMinus l = SemiExpression_new MINUS l"

definition SemiExpTimes :: "Expression \<Rightarrow> SemiExpression" where
  "SemiExpTimes l = SemiExpression_new TIMES l"

definition SemiExpDiv :: "Expression \<Rightarrow> SemiExpression" where
  "SemiExpDiv l = SemiExpression_new DIV l"

definition SemiExpShl :: "Expression \<Rightarrow> SemiExpression" where
  "SemiExpShl l = SemiExpression_new SHR l"

definition SemiExpShr :: "Expression \<Rightarrow> SemiExpression" where
  "SemiExpShr l = SemiExpression_new SHL l"

section \<open>Statements\<close>

record Return = Localizable +
  Return_expression :: "Expression Pointer"

definition Return_new :: "Expression Pointer \<Rightarrow> Return" where
  "Return_new e = \<lparr>loc = location_default, Return_expression = e\<rparr>"

definition Return_getExpression :: "Return \<Rightarrow> Expression option" where
  "Return_getExpression n = maybe_return (Return_expression n)"

record VarDeclaration = Localizable +
  VarDeclaration_name :: Id
  VarDeclaration_point :: bool
  VarDeclaration_init :: "Expression Pointer"
  VarDeclaration_type :: Type

definition VarDeclaration_new :: "Id \<Rightarrow> Type \<Rightarrow> bool \<Rightarrow> Expression Pointer \<Rightarrow> VarDeclaration" where
  "VarDeclaration_new n t p i =
     \<lparr>loc = location_default, VarDeclaration_name = n, VarDeclaration_point = p,
      VarDeclaration_init = i, VarDeclaration_type = t\<rparr>"

definition VarDeclaration_getInitializer :: "VarDeclaration \<Rightarrow> Expression option" where
  "VarDeclaration_getInitializer n = maybe_return (VarDeclaration_init n)"

record Assignment = Localizable +
  Assignment_name :: Id
  Assignment_value :: Expression

definition Assignment_new :: "Id \<Rightarrow> Expression \<Rightarrow> Assignment" where
  "Assignment_new n v = \<lparr>loc = location_default, Assignment_name = n, Assignment_value = v\<rparr>"

record Print = Localizable +
  Print_expression :: Expression

definition Print_new :: "Expression \<Rightarrow> Print" where
  "Print_new e = \<lparr>loc = location_default, Print_expression = e\<rparr>"

record Input = Localizable +
  Input_variable :: Id

definition Input_new :: "Id \<Rightarrow> Input" where
  "Input_new v = \<lparr>loc = location_default, Input_variable = v\<rparr>"

text \<open>\<^verbatim>\<open>Abort\<close> adds no member to its \<^verbatim>\<open>Localizable\<close> base.\<close>

type_synonym Abort = Localizable

definition Abort_new :: Abort where
  "Abort_new = Localizable_new"

record Assert = Localizable +
  Assert_expression :: Expression

definition Assert_new :: "Expression \<Rightarrow> Assert" where
  "Assert_new e = \<lparr>loc = location_default, Assert_expression = e\<rparr>"

text \<open>
  \<^verbatim>\<open>Loop\<close>, \<^verbatim>\<open>Branch\<close>, \<^verbatim>\<open>Branch::Body\<close> and \<^verbatim>\<open>BranchCase\<close> own statement sequences and
  are defined together with the sum \<^verbatim>\<open>Statement\<close>. A \<^verbatim>\<open>FunctionCall\<close> is a statement
  and an expression, with one \<^verbatim>\<open>Localizable\<close> base (virtual inheritance).
\<close>

datatype Statement =
    ReturnS Return
  | LoopS Loop
  | VarDeclarationS VarDeclaration
  | AssignmentS Assignment
  | PrintS Print
  | InputS Input
  | AbortS Abort
  | AssertS Assert
  | FunctionCallS FunctionCall
  | BranchS Branch
and Loop =
    Loop_obj Localizable "Statement PointerList" Expression
and BranchCase =
    BranchCase_obj Localizable SemiExpression "Statement PointerList"
and Branch_Body =
    Branch_Body_obj Localizable "BranchCase PointerList" "Statement PointerList Pointer"
and Branch =
    Branch_obj Localizable Id Branch_Body

definition Loop_new :: "Statement PointerList \<Rightarrow> Expression \<Rightarrow> Loop" where
  "Loop_new b c = Loop_obj Localizable_new b c"

fun Loop_getBody :: "Loop \<Rightarrow> Statement PointerList" where
  "Loop_getBody (Loop_obj base b c) = b"

fun Loop_getCondition :: "Loop \<Rightarrow> Expression" where
  "Loop_getCondition (Loop_obj base b c) = c"

definition BranchCase_new :: "SemiExpression \<Rightarrow> Statement PointerList \<Rightarrow> BranchCase" where
  "BranchCase_new c b = BranchCase_obj Localizable_new c b"

fun BranchCase_getCondition :: "BranchCase \<Rightarrow> SemiExpression" where
  "BranchCase_getCondition (BranchCase_obj base c b) = c"

fun BranchCase_getBody :: "BranchCase \<Rightarrow> Statement PointerList" where
  "BranchCase_getBody (BranchCase_obj base c b) = b"

definition Branch_Body_new :: "BranchCase PointerList \<Rightarrow> Statement PointerList Pointer \<Rightarrow> Branch_Body" where
  "Branch_Body_new c e = Branch_Body_obj Localizable_new c e"

fun Branch_Body_getCases :: "Branch_Body \<Rightarrow> BranchCase PointerList" where
  "Branch_Body_getCases (Branch_Body_obj base c e) = c"

fun Branch_Body_getElse :: "Branch_Body \<Rightarrow> Statement PointerList option" where
  "Branch_Body_getElse (Branch_Body_obj base c e) = maybe_return e"

definition Branch_new :: "Id \<Rightarrow> Branch_Body \<Rightarrow> Branch" where
  "Branch_new v b = Branch_obj Localizable_new v b"

fun Branch_getVar :: "Branch \<Rightarrow> Id" where
  "Branch_getVar (Branch_obj base v b) = v"

fun Branch_getBody :: "Branch \<Rightarrow> Branch_Body" where
  "Branch_getBody (Branch_obj base v b) = b"

section \<open>Structural nodes\<close>

record FunArg = Localizable +
  FunArg_name :: Id
  FunArg_type :: Type
  FunArg_pointer :: bool

definition FunArg_new :: "Id \<Rightarrow> Type \<Rightarrow> bool \<Rightarrow> FunArg" where
  "FunArg_new n t p =
     \<lparr>loc = location_default, FunArg_name = n, FunArg_type = t, FunArg_pointer = p\<rparr>"

record FunctionPrototype = Localizable +
  FunctionPrototype_name :: Id
  FunctionPrototype_type :: Type
  FunctionPrototype_args :: "FunArg PointerList"

definition FunctionPrototype_new :: "Id \<Rightarrow> Type \<Rightarrow> FunArg PointerList \<Rightarrow> FunctionPrototype" where
  "FunctionPrototype_new n r a =
     \<lparr>loc = location_default, FunctionPrototype_name = n, FunctionPrototype_type = r,
      FunctionPrototype_args = a\<rparr>"

definition FunctionPrototype_getName :: "FunctionPrototype \<Rightarrow> Id" where
  "FunctionPrototype_getName p = FunctionPrototype_name p"

definition FunctionPrototype_getType :: "FunctionPrototype \<Rightarrow> Type" where
  "FunctionPrototype_getType p = FunctionPrototype_type p"

definition FunctionPrototype_getArgs :: "FunctionPrototype \<Rightarrow> FunArg PointerList" where
  "FunctionPrototype_getArgs p = FunctionPrototype_args p"

text \<open>
  \<^verbatim>\<open>operator==\<close> and \<^verbatim>\<open>hash_value\<close> of \<^verbatim>\<open>FunctionPrototype\<close>. The standard library's
  \<^verbatim>\<open>std::hash<std::string>\<close> is the parameter \<open>hash_string\<close>.
\<close>

definition FunctionPrototype_eq :: "FunctionPrototype \<Rightarrow> FunctionPrototype \<Rightarrow> bool" where
  "FunctionPrototype_eq a b = Id_eq (FunctionPrototype_getName a) (FunctionPrototype_getName b)"

definition FunctionPrototype_hash_value :: "(string \<Rightarrow> size_t) \<Rightarrow> FunctionPrototype \<Rightarrow> size_t" where
  "FunctionPrototype_hash_value hash_string e =
     hash_string (Id_getValue (FunctionPrototype_getName e))"

record Function = Localizable +
  Function_prototype :: FunctionPrototype
  Function_body :: "Statement PointerList"

definition Function_new :: "FunctionPrototype \<Rightarrow> Statement PointerList \<Rightarrow> Function" where
  "Function_new p b = \<lparr>loc = location_default, Function_prototype = p, Function_body = b\<rparr>"

definition Function_getPrototype :: "Function \<Rightarrow> FunctionPrototype" where
  "Function_getPrototype f = Function_prototype f"

definition Function_getBody :: "Function \<Rightarrow> Statement PointerList" where
  "Function_getBody f = Function_body f"

datatype ModuleType = SYSTEM | USER

record Module = Localizable +
  Module_name :: string
  Module_type :: ModuleType

definition Module_new :: "string \<Rightarrow> ModuleType \<Rightarrow> Module" where
  "Module_new n s = \<lparr>loc = location_default, Module_name = n, Module_type = s\<rparr>"

definition Module_getName :: "Module \<Rightarrow> string" where
  "Module_getName m = Module_name m"

definition Module_getType :: "Module \<Rightarrow> ModuleType" where
  "Module_getType m = Module_type m"

text \<open>
  \<^verbatim>\<open>operator==\<close> and \<^verbatim>\<open>hash_value\<close> of \<^verbatim>\<open>Module\<close>. The hash applies
  \<^verbatim>\<open>std::hash<bool>\<close> (the parameter \<open>hash_bool\<close>) to the enumerator, which converts to
  \<^verbatim>\<open>bool\<close> as its integer value does: \<^verbatim>\<open>SYSTEM\<close> is 0 and \<^verbatim>\<open>USER\<close> is 1.
\<close>

fun ModuleType_to_bool :: "ModuleType \<Rightarrow> bool" where
  "ModuleType_to_bool SYSTEM = False"
| "ModuleType_to_bool USER = True"

definition Module_eq :: "Module \<Rightarrow> Module \<Rightarrow> bool" where
  "Module_eq a b = ((Module_getName a = Module_getName b) \<and> (Module_getType a = Module_getType b))"

definition Module_hash_value :: "(string \<Rightarrow> size_t) \<Rightarrow> (bool \<Rightarrow> size_t) \<Rightarrow> Module \<Rightarrow> size_t" where
  "Module_hash_value hash_string hash_bool e =
     hash_string (Module_getName e) XOR hash_bool (ModuleType_to_bool (Module_getType e))"

subsection \<open>The program\<close>

record Program = Localizable +
  Program_main :: "Function Pointer"
  Program_functions :: "Function PointerList"
  Program_modules :: "Module PointerSet"

text \<open>The implicit default constructor: no main, no function, no module.\<close>

definition Program_new :: Program where
  "Program_new =
     \<lparr>loc = location_default, Program_main = nullptr, Program_functions = [],
      Program_modules = []\<rparr>"

definition setMain :: "Function Pointer \<Rightarrow> Program \<Rightarrow> Program" where
  "setMain m p = p\<lparr>Program_main := m\<rparr>"

definition addFunction :: "Function \<Rightarrow> Program \<Rightarrow> Program" where
  "addFunction f p = p\<lparr>Program_functions := push_back f (Program_functions p)\<rparr>"

definition addModule :: "Module \<Rightarrow> Program \<Rightarrow> Program" where
  "addModule m p = p\<lparr>Program_modules := PointerSet_insert Module_eq m (Program_modules p)\<rparr>"

definition getMain :: "Program \<Rightarrow> Function option" where
  "getMain p = maybe_return (Program_main p)"

definition getFunctions :: "Program \<Rightarrow> Function PointerList" where
  "getFunctions p = Program_functions p"

definition getModules :: "Program \<Rightarrow> Module PointerSet" where
  "getModules p = Program_modules p"

text \<open>
  Modelled from the spec: \<^verbatim>\<open>Nodes.hpp\<close> defines \<^verbatim>\<open>operator==\<close> for \<^verbatim>\<open>Id\<close> and no hash
  for it. The spec gives an identifier equality and hash by string value; the hash
  below is the one \<^verbatim>\<open>hash_value(FunctionPrototype)\<close> applies to the name's text.
\<close>

definition Id_hash_value :: "(string \<Rightarrow> size_t) \<Rightarrow> Id \<Rightarrow> size_t" where
  "Id_hash_value hash_string e = hash_string (Id_getValue e)"

section \<open>Locations of the nodes that own statements or expressions\<close>

text \<open>
  \<^verbatim>\<open>setLocation\<close> and \<^verbatim>\<open>getLocation\<close> are members of the \<^verbatim>\<open>Localizable\<close> base. For a
  node modelled as a record they are \<open>setLocation\<close> and \<open>getLocation\<close> themselves; for
  the six classes defined as datatypes they act on the base held in the first field.
\<close>

fun FunctionCall_setLocation :: "location \<Rightarrow> FunctionCall \<Rightarrow> FunctionCall" where
  "FunctionCall_setLocation l (FunctionCall_obj base n a) = FunctionCall_obj (setLocation l base) n a"

fun FunctionCall_getLocation :: "FunctionCall \<Rightarrow> location" where
  "FunctionCall_getLocation (FunctionCall_obj base n a) = getLocation base"

fun BinaryExpression_setLocation :: "location \<Rightarrow> BinaryExpression \<Rightarrow> BinaryExpression" where
  "BinaryExpression_setLocation l (BinaryExpression_obj base x op y) =
     BinaryExpression_obj (setLocation l base) x op y"

fun BinaryExpression_getLocation :: "BinaryExpression \<Rightarrow> location" where
  "BinaryExpression_getLocation (BinaryExpression_obj base x op y) = getLocation base"

fun Loop_setLocation :: "location \<Rightarrow> Loop \<Rightarrow> Loop" where
  "Loop_setLocation l (Loop_obj base b c) = Loop_obj (setLocation l base) b c"

fun Loop_getLocation :: "Loop \<Rightarrow> location" where
  "Loop_getLocation (Loop_obj base b c) = getLocation base"

fun BranchCase_setLocation :: "location \<Rightarrow> BranchCase \<Rightarrow> BranchCase" where
  "BranchCase_setLocation l (BranchCase_obj base c b) = BranchCase_obj (setLocation l base) c b"

fun BranchCase_getLocation :: "BranchCase \<Rightarrow> location" where
  "BranchCase_getLocation (BranchCase_obj base c b) = getLocation base"

fun Branch_Body_setLocation :: "location \<Rightarrow> Branch_Body \<Rightarrow> Branch_Body" where
  "Branch_Body_setLocation l (Branch_Body_obj base c e) = Branch_Body_obj (setLocation l base) c e"

fun Branch_Body_getLocation :: "Branch_Body \<Rightarrow> location" where
  "Branch_Body_getLocation (Branch_Body_obj base c e) = getLocation base"

fun Branch_setLocation :: "location \<Rightarrow> Branch \<Rightarrow> Branch" where
  "Branch_setLocation l (Branch_obj base v b) = Branch_obj (setLocation l base) v b"

fun Branch_getLocation :: "Branch \<Rightarrow> location" where
  "Branch_getLocation (Branch_obj base v b) = getLocation base"

section \<open>The emission protocol\<close>

text \<open>
  Modelled from the spec: the class \<^verbatim>\<open>Emitter\<close> is declared in \<^verbatim>\<open>Emitter.hpp\<close>, which is
  not among the sources. The spec gives the backend one entry point per concrete node
  kind, each returning a success or failure signal. The record has one field for every
  overload \<^verbatim>\<open>emit(T const&)\<close> that a node of \<^verbatim>\<open>Nodes.hpp\<close> calls; an entry point
  takes the node and the state of the backend, and returns the signal with the new
  state.
\<close>

record 's Emitter =
  Emitter_emit_Id :: "Id \<Rightarrow> 's \<Rightarrow> bool \<times> 's"
  Emitter_emit_Integer :: "Integer \<Rightarrow> 's \<Rightarrow> bool \<times> 's"
  Emitter_emit_Float :: "Float \<Rightarrow> 's \<Rightarrow> bool \<times> 's"
  Emitter_emit_Return :: "Return \<Rightarrow> 's \<Rightarrow> bool \<times> 's"
  Emitter_emit_Loop :: "Loop \<Rightarrow> 's \<Rightarrow> bool \<times> 's"
  Emitter_emit_VarDeclaration :: "VarDeclaration \<Rightarrow> 's \<Rightarrow> bool \<times> 's"
  Emitter_emit_Assignment :: "Assignment \<Rightarrow> 's \<Rightarrow> bool \<times> 's"
  Emitter_emit_Print :: "Print \<Rightarrow> 's \<Rightarrow> bool \<times> 's"
  Emitter_emit_Input :: "Input \<Rightarrow> 's \<Rightarrow> bool \<times> 's"
  Emitter_emit_Abort :: "Abort \<Rightarrow> 's \<Rightarrow> bool \<times> 's"
  Emitter_emit_Assert :: "Assert \<Rightarrow> 's \<Rightarrow> bool \<times> 's"
  Emitter_emit_FunctionCall :: "FunctionCall \<Rightarrow> 's \<Rightarrow> bool \<times> 's"
  Emitter_emit_Branch :: "Branch \<Rightarrow> 's \<Rightarrow> bool \<times> 's"
  Emitter_emit_FunctionPrototype :: "FunctionPrototype \<Rightarrow> 's \<Rightarrow> bool \<times> 's"
  Emitter_emit_Function :: "Function \<Rightarrow> 's \<Rightarrow> bool \<times> 's"
  Emitter_emit_Module :: "Module \<Rightarrow> 's \<Rightarrow> bool \<times> 's"
  Emitter_emit_Program :: "Program \<Rightarrow> 's \<Rightarrow> bool \<times> 's"
  Emitter_emit_BinaryExpression :: "BinaryExpression \<Rightarrow> 's \<Rightarrow> bool \<times> 's"

text \<open>Every definition of \<^verbatim>\<open>emit\<close> in \<^verbatim>\<open>Nodes.hpp\<close> is \<^verbatim>\<open>return emitter->emit(*this);\<close>.\<close>

definition Id_emit :: "Id \<Rightarrow> 's Emitter \<Rightarrow> 's \<Rightarrow> bool \<times> 's" where
  "Id_emit n emitter = Emitter_emit_Id emitter n"

definition Integer_emit :: "Integer \<Rightarrow> 's Emitter \<Rightarrow> 's \<Rightarrow> bool \<times> 's" where
  "Integer_emit n emitter = Emitter_emit_Integer emitter n"

definition Float_emit :: "Float \<Rightarrow> 's Emitter \<Rightarrow> 's \<Rightarrow> bool \<times> 's" where
  "Float_emit n emitter = Emitter_emit_Float emitter n"

definition Return_emit :: "Return \<Rightarrow> 's Emitter \<Rightarrow> 's \<Rightarrow> bool \<times> 's" where
  "Return_emit n emitter = Emitter_emit_Return emitter n"

definition Loop_emit :: "Loop \<Rightarrow> 's Emitter \<Rightarrow> 's \<Rightarrow> bool \<times> 's" where
  "Loop_emit n emitter = Emitter_emit_Loop emitter n"

definition VarDeclaration_emit :: "VarDeclaration \<Rightarrow> 's Emitter \<Rightarrow> 's \<Rightarrow> bool \<times> 's" where
  "VarDeclaration_emit n emitter = Emitter_emit_VarDeclaration emitter n"

definition Assignment_emit :: "Assignment \<Rightarrow> 's Emitter \<Rightarrow> 's \<Rightarrow> bool \<times> 's" where
  "Assignment_emit n emitter = Emitter_emit_Assignment emitter n"

definition Print_emit :: "Print \<Rightarrow> 's Emitter \<Rightarrow> 's \<Rightarrow> bool \<times> 's" where
  "Print_emit n emitter = Emitter_emit_Print emitter n"

definition Input_emit :: "Input \<Rightarrow> 's Emitter \<Rightarrow> 's \<Rightarrow> bool \<times> 's" where
  "Input_emit n emitter = Emitter_emit_Input emitter n"

definition Abort_emit :: "Abort \<Rightarrow> 's Emitter \<Rightarrow> 's \<Rightarrow> bool \<times> 's" where
  "Abort_emit n emitter = Emitter_emit_Abort emitter n"

definition Assert_emit :: "Assert \<Rightarrow> 's Emitter \<Rightarrow> 's \<Rightarrow> bool \<times> 's" where
  "Assert_emit n emitter = Emitter_emit_Assert emitter n"

definition FunctionCall_emit :: "FunctionCall \<Rightarrow> 's Emitter \<Rightarrow> 's \<Rightarrow> bool \<times> 's" where
  "FunctionCall_emit n emitter = Emitter_emit_FunctionCall emitter n"

definition Branch_emit :: "Branch \<Rightarrow> 's Emitter \<Rightarrow> 's \<Rightarrow> bool \<times> 's" where
  "Branch_emit n emitter = Emitter_emit_Branch emitter n"

definition FunctionPrototype_emit :: "FunctionPrototype \<Rightarrow> 's Emitter \<Rightarrow> 's \<Rightarrow> bool \<times> 's" where
  "FunctionPrototype_emit n emitter = Emitter_emit_FunctionPrototype emitter n"

definition Function_emit :: "Function \<Rightarrow> 's Emitter \<Rightarrow> 's \<Rightarrow> bool \<times> 's" where
  "Function_emit n emitter = Emitter_emit_Function emitter n"

definition Module_emit :: "Module \<Rightarrow> 's Emitter \<Rightarrow> 's \<Rightarrow> bool \<times> 's" where
  "Module_emit n emitter = Emitter_emit_Module emitter n"

definition Program_emit :: "Program \<Rightarrow> 's Emitter \<Rightarrow> 's \<Rightarrow> bool \<times> 's" where
  "Program_emit n emitter = Emitter_emit_Program emitter n"

definition BinaryExpression_emit :: "BinaryExpression \<Rightarrow> 's Emitter \<Rightarrow> 's \<Rightarrow> bool \<times> 's" where
  "BinaryExpression_emit n emitter = Emitter_emit_BinaryExpression emitter n"

text \<open>A call of the virtual \<^verbatim>\<open>emit\<close> through an \<^verbatim>\<open>Expression\<close> or a \<^verbatim>\<open>Statement\<close> runs the
  definition of the object's class.\<close>

fun Expression_emit :: "Expression \<Rightarrow> 's Emitter \<Rightarrow> 's \<Rightarrow> bool \<times> 's" where
  "Expression_emit (IdE n) emitter = Id_emit n emitter"
| "Expression_emit (IntegerE n) emitter = Integer_emit n emitter"
| "Expression_emit (FloatE n) emitter = Float_emit n emitter"
| "Expression_emit (FunctionCallE n) emitter = FunctionCall_emit n emitter"
| "Expression_emit (BinaryExpressionE n) emitter = BinaryExpression_emit n emitter"

fun Statement_emit :: "Statement \<Rightarrow> 's Emitter \<Rightarrow> 's \<Rightarrow> bool \<times> 's" where
  "Statement_emit (ReturnS n) emitter = Return_emit n emitter"
| "Statement_emit (LoopS n) emitter = Loop_emit n emitter"
| "Statement_emit (VarDeclarationS n) emitter = VarDeclaration_emit n emitter"
| "Statement_emit (AssignmentS n) emitter = Assignment_emit n emitter"
| "Statement_emit (PrintS n) emitter = Print_emit n emitter"
| "Statement_emit (InputS n) emitter = Input_emit n emitter"
| "Statement_emit (AbortS n) emitter = Abort_emit n emitter"
| "Statement_emit (AssertS n) emitter = Assert_emit n emitter"
| "Statement_emit (FunctionCallS n) emitter = FunctionCall_emit n emitter"
| "Statement_emit (BranchS n) emitter = Branch_emit n emitter"

section \<open>The class hierarchy\<close>

text \<open>
  The classes of \<^verbatim>\<open>Nodes.hpp\<close> in the order of their declaration (\<^verbatim>\<open>Branch::Body\<close> is
  \<open>C_Branch_Body\<close>), the base classes each one names, and whether its body defines
  \<^verbatim>\<open>emit\<close>. \<^verbatim>\<open>Emittable\<close> declares \<^verbatim>\<open>emit\<close> pure virtual and defines nothing.
\<close>

datatype NodeClass =
    C_Localizable
  | C_Emittable
  | C_Statement
  | C_Expression
  | C_SimpleExpression
  | C_SemiExpression
  | C_Id
  | C_Number
  | C_Integer
  | C_Float
  | C_Return
  | C_Loop
  | C_VarDeclaration
  | C_Assignment
  | C_Print
  | C_Input
  | C_Abort
  | C_Assert
  | C_FunctionCall
  | C_BranchCase
  | C_Branch
  | C_Branch_Body
  | C_FunArg
  | C_FunctionPrototype
  | C_Function
  | C_Module
  | C_Program
  | C_BinaryExpression
  | C_ExpLt
  | C_ExpGt
  | C_ExpLte
  | C_ExpGte
  | C_ExpPlus
  | C_ExpMinus
  | C_ExpTimes
  | C_ExpDiv
  | C_ExpShl
  | C_ExpShr
  | C_SemiExpEq
  | C_SemiExpLt
  | C_SemiExpGt
  | C_SemiExpLte
  | C_SemiExpGte
  | C_SemiExpPlus
  | C_SemiExpMinus
  | C_SemiExpTimes
  | C_SemiExpDiv
  | C_SemiExpShl
  | C_SemiExpShr

fun bases :: "NodeClass \<Rightarrow> NodeClass list" where
  "bases C_Localizable = []"
| "bases C_Emittable = [C_Localizable]"
| "bases C_Statement = [C_Emittable]"
| "bases C_Expression = [C_Emittable]"
| "bases C_SimpleExpression = [C_Expression]"
| "bases C_SemiExpression = [C_Localizable]"
| "bases C_Id = [C_SimpleExpression]"
| "bases C_Number = [C_SimpleExpression]"
| "bases C_Integer = [C_Number]"
| "bases C_Float = [C_Number]"
| "bases C_Return = [C_Statement]"
| "bases C_Loop = [C_Statement]"
| "bases C_VarDeclaration = [C_Statement]"
| "bases C_Assignment = [C_Statement]"
| "bases C_Print = [C_Statement]"
| "bases C_Input = [C_Statement]"
| "bases C_Abort = [C_Statement]"
| "bases C_Assert = [C_Statement]"
| "bases C_FunctionCall = [C_Statement, C_Expression]"
| "bases C_BranchCase = [C_Localizable]"
| "bases C_Branch = [C_Statement]"
| "bases C_Branch_Body = [C_Localizable]"
| "bases C_FunArg = [C_Localizable]"
| "bases C_FunctionPrototype = [C_Emittable]"
| "bases C_Function = [C_Emittable]"
| "bases C_Module = [C_Emittable]"
| "bases C_Program = [C_Emittable]"
| "bases C_BinaryExpression = [C_Expression]"
| "bases C_ExpLt = [C_BinaryExpression]"
| "bases C_ExpGt = [C_BinaryExpression]"
| "bases C_ExpLte = [C_BinaryExpression]"
| "bases C_ExpGte = [C_BinaryExpression]"
| "bases C_ExpPlus = [C_BinaryExpression]"
| "bases C_ExpMinus = [C_BinaryExpression]"
| "bases C_ExpTimes = [C_BinaryExpression]"
| "bases C_ExpDiv = [C_BinaryExpression]"
| "bases C_ExpShl = [C_BinaryExpression]"
| "bases C_ExpShr = [C_BinaryExpression]"
| "bases C_SemiExpEq = [C_SemiExpression]"
| "bases C_SemiExpLt = [C_SemiExpression]"
| "bases C_SemiExpGt = [C_SemiExpression]"
| "bases C_SemiExpLte = [C_SemiExpression]"
| "bases C_SemiExpGte = [C_SemiExpression]"
| "bases C_SemiExpPlus = [C_SemiExpression]"
| "bases C_SemiExpMinus = [C_SemiExpression]"
| "bases C_SemiExpTimes = [C_SemiExpression]"
| "bases C_SemiExpDiv = [C_SemiExpression]"
| "bases C_SemiExpShl = [C_SemiExpression]"
| "bases C_SemiExpShr = [C_SemiExpression]"

fun defines_emit :: "NodeClass \<Rightarrow> bool" where
  "defines_emit C_Id = True"
| "defines_emit C_Integer = True"
| "defines_emit C_Float = True"
| "defines_emit C_Return = True"
| "defines_emit C_Loop = True"
| "defines_emit C_VarDeclaration = True"
| "defines_emit C_Assignment = True"
| "defines_emit C_Print = True"
| "defines_emit C_Input = True"
| "defines_emit C_Abort = True"
| "defines_emit C_Assert = True"
| "defines_emit C_FunctionCall = True"
| "defines_emit C_Branch = True"
| "defines_emit C_FunctionPrototype = True"
| "defines_emit C_Function = True"
| "defines_emit C_Module = True"
| "defines_emit C_Program = True"
| "defines_emit C_BinaryExpression = True"
| "defines_emit _ = False"

text \<open>
  The class with its direct and indirect bases, nearest first. No chain of bases in the
  file is longer than five steps (\<open>supers_complete\<close> below), so \<open>ancestors\<close> is the whole
  closure.
\<close>

fun supers :: "nat \<Rightarrow> NodeClass \<Rightarrow> NodeClass list" where
  "supers 0 c = [c]"
| "supers (Suc n) c = c # concat (map (supers n) (bases c))"

definition ancestors :: "NodeClass \<Rightarrow> NodeClass list" where
  "ancestors c = supers (Suc (Suc (Suc (Suc (Suc 0))))) c"

text \<open>
  A class has the member \<^verbatim>\<open>emit\<close> when it derives from \<^verbatim>\<open>Emittable\<close>. The body that runs
  for an object of the class is the nearest definition among the class and its bases;
  as that body is \<^verbatim>\<open>emitter->emit(*this)\<close>, it names the overload of the backend that
  receives the node.
\<close>

definition is_Emittable :: "NodeClass \<Rightarrow> bool" where
  "is_Emittable c = (C_Emittable \<in> set (ancestors c))"

definition emit_overload :: "NodeClass \<Rightarrow> NodeClass option" where
  "emit_overload c = find defines_emit (ancestors c)"

definition binary_forms :: "NodeClass list" where
  "binary_forms =
     [C_ExpLt, C_ExpGt, C_ExpLte, C_ExpGte, C_ExpPlus, C_ExpMinus, C_ExpTimes, C_ExpDiv,
      C_ExpShl, C_ExpShr]"

definition partial_forms :: "NodeClass list" where
  "partial_forms =
     [C_SemiExpression, C_SemiExpEq, C_SemiExpLt, C_SemiExpGt, C_SemiExpLte, C_SemiExpGte,
      C_SemiExpPlus, C_SemiExpMinus, C_SemiExpTimes, C_SemiExpDiv, C_SemiExpShl, C_SemiExpShr]"

definition emitting_classes :: "NodeClass list" where
  "emitting_classes =
     [C_Id, C_Integer, C_Float, C_Return, C_Loop, C_VarDeclaration, C_Assignment, C_Print,
      C_Input, C_Abort, C_Assert, C_FunctionCall, C_Branch, C_FunctionPrototype, C_Function,
      C_Module, C_Program, C_BinaryExpression]"

section \<open>The propagation policy of a backend\<close>

text \<open>
  Modelled from the spec: the entry points of a backend are implemented by the
  backends, which are not among the sources; a node of \<^verbatim>\<open>Nodes.hpp\<close> only hands itself to
  its entry point. The spec states the policy. A sequence of statements stops at the
  first failure and propagates it, without emitting the statements after it. A
  composite expression emits its children first and short-circuits on failure, never
  reporting success by skipping an operand. Both are stated over the operation that
  emits one child (\<open>emit\<close>), and \<open>combine\<close> is the work of the backend on the operator
  once both operands are emitted.
\<close>

fun Backend_emit_sequence :: "('n \<Rightarrow> 's \<Rightarrow> bool \<times> 's) \<Rightarrow> 'n list \<Rightarrow> 's \<Rightarrow> bool \<times> 's" where
  "Backend_emit_sequence emit [] s = (True, s)"
| "Backend_emit_sequence emit (n # ns) s =
     (case emit n s of
        (True, s') \<Rightarrow> Backend_emit_sequence emit ns s'
      | (False, s') \<Rightarrow> (False, s'))"

definition Backend_emit_BinaryExpression ::
    "(Expression \<Rightarrow> 's \<Rightarrow> bool \<times> 's) \<Rightarrow> (Operator \<Rightarrow> 's \<Rightarrow> bool \<times> 's) \<Rightarrow>
     BinaryExpression \<Rightarrow> 's \<Rightarrow> bool \<times> 's" where
  "Backend_emit_BinaryExpression emit combine node s =
     (case emit (BinaryExpression_getLeft node) s of
        (False, s1) \<Rightarrow> (False, s1)
      | (True, s1) \<Rightarrow>
          (case emit (BinaryExpression_getRight node) s1 of
             (False, s2) \<Rightarrow> (False, s2)
           | (True, s2) \<Rightarrow> combine (BinaryExpression_getOperator node) s2))"

text \<open>
  A backend that records the kind of every node it receives, in order, and fails on
  the kinds listed in \<open>failing\<close>.
\<close>

definition record_kind :: "string list \<Rightarrow> string \<Rightarrow> string list \<Rightarrow> bool \<times> string list" where
  "record_kind failing kind s = (kind \<notin> set failing, s @ [kind])"

definition recording_Emitter :: "string list \<Rightarrow> string list Emitter" where
  "recording_Emitter failing =
     \<lparr>Emitter_emit_Id = (\<lambda>n. record_kind failing ''Id''),
      Emitter_emit_Integer = (\<lambda>n. record_kind failing ''Integer''),
      Emitter_emit_Float = (\<lambda>n. record_kind failing ''Float''),
      Emitter_emit_Return = (\<lambda>n. record_kind failing ''Return''),
      Emitter_emit_Loop = (\<lambda>n. record_kind failing ''Loop''),
      Emitter_emit_VarDeclaration = (\<lambda>n. record_kind failing ''VarDeclaration''),
      Emitter_emit_Assignment = (\<lambda>n. record_kind failing ''Assignment''),
      Emitter_emit_Print = (\<lambda>n. record_kind failing ''Print''),
      Emitter_emit_Input = (\<lambda>n. record_kind failing ''Input''),
      Emitter_emit_Abort = (\<lambda>n. record_kind failing ''Abort''),
      Emitter_emit_Assert = (\<lambda>n. record_kind failing ''Assert''),
      Emitter_emit_FunctionCall = (\<lambda>n. record_kind failing ''FunctionCall''),
      Emitter_emit_Branch = (\<lambda>n. record_kind failing ''Branch''),
      Emitter_emit_FunctionPrototype = (\<lambda>n. record_kind failing ''FunctionPrototype''),
      Emitter_emit_Function = (\<lambda>n. record_kind failing ''Function''),
      Emitter_emit_Module = (\<lambda>n. record_kind failing ''Module''),
      Emitter_emit_Program = (\<lambda>n. record_kind failing ''Program''),
      Emitter_emit_BinaryExpression = (\<lambda>n. record_kind failing ''BinaryExpression'')\<rparr>"

abbreviation Module_key :: "Module \<Rightarrow> string \<times> ModuleType" where
  "Module_key m \<equiv> (Module_getName m, Module_getType m)"

section \<open>Equality and hash contracts\<close>

text \<open>
  Claim C1. Two prototypes are equal exactly when their names have the same text,
  whatever their return types and argument lists; the hash of a prototype is the hash
  of its name's text, so prototypes with equal names have equal hashes.
\<close>

theorem FunctionPrototype_eq_hash_by_name:
  "(FunctionPrototype_eq a b \<longleftrightarrow>
      Id_getValue (FunctionPrototype_getName a) = Id_getValue (FunctionPrototype_getName b))
   \<and> (FunctionPrototype_eq (FunctionPrototype_new n r1 as1) (FunctionPrototype_new n' r2 as2)
        \<longleftrightarrow> Id_getValue n = Id_getValue n')
   \<and> FunctionPrototype_hash_value h a = h (Id_getValue (FunctionPrototype_getName a))
   \<and> (Id_getValue (FunctionPrototype_getName a) = Id_getValue (FunctionPrototype_getName b)
        \<longrightarrow> FunctionPrototype_hash_value h a = FunctionPrototype_hash_value h b)"
  by (simp add: FunctionPrototype_eq_def Id_eq_def FunctionPrototype_hash_value_def
      FunctionPrototype_getName_def FunctionPrototype_new_def)

text \<open>Two prototypes named \<open>f\<close> with different signatures, hashed by the length of the
  text.\<close>

theorem FunctionPrototype_eq_hash_by_name_witness:
  "Id_getValue (FunctionPrototype_getName (FunctionPrototype_new (Id_new ''f'') INT_type []))
     = Id_getValue (FunctionPrototype_getName
         (FunctionPrototype_new (Id_new ''f'') VOID [FunArg_new (Id_new ''x'') CHAR_type True]))
   \<and> FunctionPrototype_hash_value (\<lambda>s. of_nat (length s))
       (FunctionPrototype_new (Id_new ''f'') INT_type [])
     = FunctionPrototype_hash_value (\<lambda>s. of_nat (length s))
         (FunctionPrototype_new (Id_new ''f'') VOID [FunArg_new (Id_new ''x'') CHAR_type True])"
proof -
  let ?a = "FunctionPrototype_new (Id_new ''f'') INT_type []"
  let ?b = "FunctionPrototype_new (Id_new ''f'') VOID [FunArg_new (Id_new ''x'') CHAR_type True]"
  let ?h = "\<lambda>s::string. (of_nat (length s) :: size_t)"
  have names: "Id_getValue (FunctionPrototype_getName ?a) = Id_getValue (FunctionPrototype_getName ?b)"
    by (simp add: FunctionPrototype_getName_def FunctionPrototype_new_def)
  have "FunctionPrototype_hash_value ?h ?a = FunctionPrototype_hash_value ?h ?b"
    using FunctionPrototype_eq_hash_by_name [of ?a ?b _ _ _ _ _ _ ?h] names by blast
  with names show ?thesis by (rule conjI)
qed

text \<open>
  Claim C3. Two modules are equal exactly when both name and kind are equal; modules
  with equal name and kind have equal hashes; modules with equal name and different
  kind are unequal.
\<close>

theorem Module_eq_hash_by_name_kind:
  "(Module_eq a b \<longleftrightarrow>
      Module_getName a = Module_getName b \<and> Module_getType a = Module_getType b)
   \<and> (Module_getName a = Module_getName b \<and> Module_getType a = Module_getType b
        \<longrightarrow> Module_hash_value hs hb a = Module_hash_value hs hb b)
   \<and> (Module_getName a = Module_getName b \<and> Module_getType a \<noteq> Module_getType b
        \<longrightarrow> \<not> Module_eq a b)"
  by (simp add: Module_eq_def Module_hash_value_def)

text \<open>The module \<open>io\<close> imported twice as a system module at two places, and once as a
  user module.\<close>

theorem Module_eq_hash_by_name_kind_witness:
  "Module_hash_value (\<lambda>s. of_nat (length s)) (\<lambda>b. if b then 1 else 0)
       (Module_new ''io'' SYSTEM)
     = Module_hash_value (\<lambda>s. of_nat (length s)) (\<lambda>b. if b then 1 else 0)
         (setLocation (location (position 7 1) (position 7 9)) (Module_new ''io'' SYSTEM))
   \<and> \<not> Module_eq (Module_new ''io'' SYSTEM) (Module_new ''io'' USER)"
proof -
  let ?a = "Module_new ''io'' SYSTEM"
  let ?b = "setLocation (location (position 7 1) (position 7 9)) (Module_new ''io'' SYSTEM)"
  let ?c = "Module_new ''io'' USER"
  let ?hs = "\<lambda>s::string. (of_nat (length s) :: size_t)"
  let ?hb = "\<lambda>b::bool. (if b then 1 else 0 :: size_t)"
  have same: "Module_getName ?a = Module_getName ?b \<and> Module_getType ?a = Module_getType ?b"
    by (simp add: Module_getName_def Module_getType_def Module_new_def setLocation_def)
  have other: "Module_getName ?a = Module_getName ?c \<and> Module_getType ?a \<noteq> Module_getType ?c"
    by (simp add: Module_getName_def Module_getType_def Module_new_def)
  have "Module_hash_value ?hs ?hb ?a = Module_hash_value ?hs ?hb ?b"
    using Module_eq_hash_by_name_kind [of ?a ?b ?hs ?hb] same by blast
  moreover have "\<not> Module_eq ?a ?c"
    using Module_eq_hash_by_name_kind [of ?a ?c ?hs ?hb] other by blast
  ultimately show ?thesis by (rule conjI)
qed

text \<open>
  Claim C4. Two identifiers with equal text are equal and have equal hashes, whatever
  their locations: equality and hash depend on the string payload only.
\<close>

theorem Id_eq_hash_by_text:
  "(Id_getValue a = Id_getValue b \<longrightarrow> Id_eq a b \<and> Id_hash_value h a = Id_hash_value h b)
   \<and> (Id_eq a b \<longleftrightarrow> Id_getValue a = Id_getValue b)
   \<and> Id_eq (setLocation l a) (setLocation l' b) = Id_eq a b
   \<and> Id_hash_value h (setLocation l a) = Id_hash_value h a"
  by (simp add: Id_eq_def Id_hash_value_def Id_getValue_def setLocation_def)

text \<open>The identifier \<open>x\<close> at two places.\<close>

theorem Id_eq_hash_by_text_witness:
  "Id_eq (setLocation (location (position 1 1) (position 1 2)) (Id_new ''x''))
      (setLocation (location (position 4 8) (position 4 9)) (Id_new ''x''))
   \<and> Id_hash_value (\<lambda>s. of_nat (length s))
        (setLocation (location (position 1 1) (position 1 2)) (Id_new ''x''))
     = Id_hash_value (\<lambda>s. of_nat (length s))
        (setLocation (location (position 4 8) (position 4 9)) (Id_new ''x''))"
proof -
  let ?a = "setLocation (location (position 1 1) (position 1 2)) (Id_new ''x'')"
  let ?b = "setLocation (location (position 4 8) (position 4 9)) (Id_new ''x'')"
  have same_text: "Id_getValue ?a = Id_getValue ?b"
    by (simp add: Id_getValue_def Id_new_def setLocation_def)
  show ?thesis
    using Id_eq_hash_by_text [of ?a ?b "\<lambda>s. of_nat (length s)"] same_text by blast
qed

section \<open>Operators of the shift forms\<close>

text \<open>
  Claim C2. The partial shift forms carry the operators transposed with respect to the
  full binary forms: \<^verbatim>\<open>SemiExpShl\<close> has operator \<open>SHR\<close> and \<^verbatim>\<open>SemiExpShr\<close> has \<open>SHL\<close>,
  while \<^verbatim>\<open>ExpShl\<close> has \<open>SHL\<close> and \<^verbatim>\<open>ExpShr\<close> has \<open>SHR\<close>.
\<close>

theorem SemiExp_shift_operators_transposed:
  "SemiExpression_getOperator (SemiExpShl l) = SHR
   \<and> SemiExpression_getOperator (SemiExpShr l) = SHL
   \<and> BinaryExpression_getOperator (ExpShl l r) = SHL
   \<and> BinaryExpression_getOperator (ExpShr l r) = SHR"
  by (simp add: SemiExpression_getOperator_def SemiExpShl_def SemiExpShr_def
      SemiExpression_new_def ExpShl_def ExpShr_def BinaryExpression_new_def)

section \<open>Locations\<close>

text \<open>
  As stated, the location would keep its first value when it is set again. The setter
  has no guard: an identifier located twice holds the second location.
\<close>

theorem setLocation_twice_counterexample:
  "getLocation (setLocation (location (position 2 1) (position 2 5))
       (setLocation (location (position 1 1) (position 1 5)) (Id_new ''x'')))
     \<noteq> location (position 1 1) (position 1 5)"
  by (simp add: getLocation_def setLocation_def)

text \<open>
  Claim C6, amended. For every node carrying a location, the location read after it
  has been set is the value supplied, and setting it a second time is allowed and
  overwrites: the location read afterwards is the value set last. The first two
  conjuncts cover every class modelled as a record over \<open>Localizable\<close>, the others the
  six classes modelled as datatypes.
\<close>

theorem setLocation_last_wins:
  "getLocation (setLocation l n) = l
   \<and> getLocation (setLocation l2 (setLocation l1 n)) = l2
   \<and> FunctionCall_getLocation (FunctionCall_setLocation l fc) = l
   \<and> FunctionCall_getLocation (FunctionCall_setLocation l2 (FunctionCall_setLocation l1 fc)) = l2
   \<and> BinaryExpression_getLocation (BinaryExpression_setLocation l be) = l
   \<and> BinaryExpression_getLocation (BinaryExpression_setLocation l2 (BinaryExpression_setLocation l1 be)) = l2
   \<and> Loop_getLocation (Loop_setLocation l lp) = l
   \<and> Loop_getLocation (Loop_setLocation l2 (Loop_setLocation l1 lp)) = l2
   \<and> BranchCase_getLocation (BranchCase_setLocation l bc) = l
   \<and> BranchCase_getLocation (BranchCase_setLocation l2 (BranchCase_setLocation l1 bc)) = l2
   \<and> Branch_Body_getLocation (Branch_Body_setLocation l bb) = l
   \<and> Branch_Body_getLocation (Branch_Body_setLocation l2 (Branch_Body_setLocation l1 bb)) = l2
   \<and> Branch_getLocation (Branch_setLocation l br) = l
   \<and> Branch_getLocation (Branch_setLocation l2 (Branch_setLocation l1 br)) = l2"
  by (cases fc; cases be; cases lp; cases bc; cases bb; cases br;
      simp add: getLocation_def setLocation_def)

section \<open>Optional children\<close>

text \<open>
  Claim C9. The expression retrieved from a \<^verbatim>\<open>Return\<close> is absent exactly when the node
  was constructed with no expression, and is the constructed expression otherwise;
  a present expression is never the absent one, and the location plays no part.
\<close>

theorem Return_getExpression_absent_or_present:
  "(Return_getExpression (Return_new e) = None \<longleftrightarrow> e = nullptr)
   \<and> Return_getExpression (Return_new (Ptr x)) = Some x
   \<and> Return_getExpression (Return_new (Ptr x)) \<noteq> Return_getExpression (Return_new nullptr)
   \<and> Return_getExpression (setLocation l n) = Return_getExpression n"
  by (cases e) (simp_all add: Return_getExpression_def Return_new_def setLocation_def)

section \<open>The program\<close>

text \<open>
  Claim C10. Each mutator of \<^verbatim>\<open>Program\<close> touches its own component only: \<^verbatim>\<open>setMain\<close>
  replaces the main slot (a later call overriding an earlier one) and leaves the
  functions and the modules; \<^verbatim>\<open>addFunction\<close> appends at the end of the functions and
  leaves main and the modules; \<^verbatim>\<open>addModule\<close> leaves main and the functions. None
  changes the location of the program.
\<close>

theorem Program_mutators_frame:
  "getMain (setMain m p) = maybe_return m
   \<and> getMain (setMain m2 (setMain m1 p)) = maybe_return m2
   \<and> getFunctions (setMain m p) = getFunctions p
   \<and> getModules (setMain m p) = getModules p
   \<and> getFunctions (addFunction f p) = getFunctions p @ [f]
   \<and> getMain (addFunction f p) = getMain p
   \<and> getModules (addFunction f p) = getModules p
   \<and> getMain (addModule md p) = getMain p
   \<and> getFunctions (addModule md p) = getFunctions p
   \<and> getLocation (setMain m p) = getLocation p
   \<and> getLocation (addFunction f p) = getLocation p
   \<and> getLocation (addModule md p) = getLocation p"
  by (simp add: getMain_def getFunctions_def getModules_def setMain_def addFunction_def
      addModule_def push_back_def getLocation_def)

subsection \<open>The module set\<close>

text \<open>
  The set of modules holds pairwise unequal modules, that is, modules with distinct
  (name, kind) pairs. This holds of the empty program and every mutator keeps it, so it
  holds of every program built through the interface of the class.
\<close>

lemma Module_list_ex_key:
  "list_ex (\<lambda>y. Module_eq y x) xs \<longleftrightarrow> Module_key x \<in> set (map Module_key xs)"
  by (induction xs) (auto simp: Module_eq_def)

lemma PointerSet_inv_distinct:
  "PointerSet_inv Module_eq xs \<longleftrightarrow> distinct (map Module_key xs)"
  by (induction xs) (simp_all add: Module_list_ex_key del: set_map)

lemma PointerSet_insert_key:
  "PointerSet_insert Module_eq x xs =
     (if Module_key x \<in> set (map Module_key xs) then xs else xs @ [x])"
  unfolding PointerSet_insert_def Module_list_ex_key by simp

lemma PointerSet_insert_inv:
  assumes "PointerSet_inv Module_eq xs"
  shows "PointerSet_inv Module_eq (PointerSet_insert Module_eq x xs)"
  using assms unfolding PointerSet_inv_distinct PointerSet_insert_key by simp

lemma filter_key_distinct:
  "distinct (map k xs) \<Longrightarrow> v \<in> set (map k xs) \<Longrightarrow> length (filter (\<lambda>y. k y = v) xs) = 1"
proof (induction xs)
  case Nil
  then show ?case by simp
next
  case (Cons x xs)
  show ?case
  proof (cases "k x = v")
    case True
    with Cons.prems have "v \<notin> set (map k xs)" by auto
    then have "filter (\<lambda>y. k y = v) xs = []" by (auto simp: filter_empty_conv)
    with True show ?thesis by simp
  next
    case False
    with Cons show ?thesis by auto
  qed
qed

lemma Program_new_inv: "PointerSet_inv Module_eq (getModules Program_new)"
  by (simp add: getModules_def Program_new_def)

lemma setMain_inv:
  "PointerSet_inv Module_eq (getModules (setMain m p)) = PointerSet_inv Module_eq (getModules p)"
  by (simp add: getModules_def setMain_def)

lemma addFunction_inv:
  "PointerSet_inv Module_eq (getModules (addFunction f p)) = PointerSet_inv Module_eq (getModules p)"
  by (simp add: getModules_def addFunction_def)

lemma addModule_inv:
  "PointerSet_inv Module_eq (getModules p) \<Longrightarrow> PointerSet_inv Module_eq (getModules (addModule m p))"
  by (simp add: getModules_def addModule_def PointerSet_insert_inv)

text \<open>
  Claim C5. For every program (its module set holding pairwise unequal modules, as
  every program built through the interface does) and modules \<open>m1\<close>, \<open>m2\<close> with the same
  name and kind, after adding both the set contains exactly one module with that name
  and kind; the second addition changes nothing, and adding a module equal to one
  already present leaves the program as it is.
\<close>

theorem addModule_deduplicates:
  assumes inv: "PointerSet_inv Module_eq (getModules p)"
    and same: "Module_getName m1 = Module_getName m2 \<and> Module_getType m1 = Module_getType m2"
  shows "length (filter (\<lambda>m. Module_getName m = Module_getName m1
                           \<and> Module_getType m = Module_getType m1)
             (getModules (addModule m2 (addModule m1 p)))) = 1
     \<and> addModule m2 (addModule m1 p) = addModule m1 p
     \<and> (list_ex (\<lambda>y. Module_eq y m) (getModules p) \<longrightarrow> addModule m p = p)"
proof -
  let ?xs = "Program_modules p"
  let ?xs1 = "PointerSet_insert Module_eq m1 ?xs"
  have d: "distinct (map Module_key ?xs)"
    using inv unfolding PointerSet_inv_distinct by (simp add: getModules_def)
  have xs1: "?xs1 = (if Module_key m1 \<in> set (map Module_key ?xs) then ?xs else ?xs @ [m1])"
    by (rule PointerSet_insert_key)
  have d1: "distinct (map Module_key ?xs1)" using d unfolding xs1 by simp
  have in1: "Module_key m1 \<in> set (map Module_key ?xs1)" unfolding xs1 by simp
  have keq: "Module_key m2 = Module_key m1" using same by simp
  have again: "PointerSet_insert Module_eq m2 ?xs1 = ?xs1"
    using in1 unfolding PointerSet_insert_key [of m2 ?xs1] keq by simp
  have noop: "addModule m2 (addModule m1 p) = addModule m1 p"
    using again by (simp add: addModule_def)
  have "length (filter (\<lambda>y. Module_key y = Module_key m1) ?xs1) = 1"
    by (rule filter_key_distinct [OF d1 in1])
  then have one: "length (filter (\<lambda>m. Module_getName m = Module_getName m1
                           \<and> Module_getType m = Module_getType m1)
             (getModules (addModule m2 (addModule m1 p)))) = 1"
    unfolding noop by (simp add: getModules_def addModule_def)
  have present: "list_ex (\<lambda>y. Module_eq y m) (getModules p) \<longrightarrow> addModule m p = p"
    by (simp add: addModule_def PointerSet_insert_def getModules_def)
  from one noop present show ?thesis by blast
qed

text \<open>A program that imports the user module \<open>io\<close>, then the system module \<open>io\<close> at
  two places: one system module \<open>io\<close> is kept, and importing the user module again
  changes nothing.\<close>

theorem addModule_deduplicates_witness:
  "PointerSet_inv Module_eq (getModules (addModule (Module_new ''io'' USER) Program_new))
   \<and> length (filter (\<lambda>m. Module_getName m = ''io'' \<and> Module_getType m = SYSTEM)
        (getModules
          (addModule (setLocation (location (position 7 1) (position 7 9)) (Module_new ''io'' SYSTEM))
            (addModule (Module_new ''io'' SYSTEM)
              (addModule (Module_new ''io'' USER) Program_new))))) = 1
   \<and> addModule (setLocation (location (position 9 1) (position 9 9)) (Module_new ''io'' USER))
        (addModule (Module_new ''io'' USER) Program_new)
     = addModule (Module_new ''io'' USER) Program_new"
proof -
  let ?p = "addModule (Module_new ''io'' USER) Program_new"
  let ?m1 = "Module_new ''io'' SYSTEM"
  let ?m2 = "setLocation (location (position 7 1) (position 7 9)) (Module_new ''io'' SYSTEM)"
  let ?m = "setLocation (location (position 9 1) (position 9 9)) (Module_new ''io'' USER)"
  have inv: "PointerSet_inv Module_eq (getModules ?p)"
    by (rule addModule_inv [OF Program_new_inv])
  have same: "Module_getName ?m1 = Module_getName ?m2 \<and> Module_getType ?m1 = Module_getType ?m2"
    by (simp add: Module_getName_def Module_getType_def Module_new_def setLocation_def)
  have n: "Module_getName ?m1 = ''io''" and t: "Module_getType ?m1 = SYSTEM"
    by (simp_all add: Module_getName_def Module_getType_def Module_new_def)
  have present: "list_ex (\<lambda>y. Module_eq y ?m) (getModules ?p)"
    by (simp add: getModules_def addModule_def Program_new_def PointerSet_insert_def
        Module_eq_def Module_getName_def Module_getType_def Module_new_def setLocation_def)
  note inst = addModule_deduplicates [OF inv same, of ?m, unfolded n t]
  show ?thesis
    by (rule conjI [OF inv conjI [OF conjunct1 [OF inst]
          mp [OF conjunct2 [OF conjunct2 [OF inst]] present]]])
qed

section \<open>Which classes can be emitted\<close>

lemma supers_complete:
  "set (supers (Suc (Suc (Suc (Suc (Suc (Suc 0)))))) c) = set (ancestors c)"
  by (cases c) (simp_all add: ancestors_def)

text \<open>
  As stated, every partial form would expose \<^verbatim>\<open>emit\<close>. \<^verbatim>\<open>SemiExpShl\<close> derives from
  \<^verbatim>\<open>SemiExpression\<close>, which derives from \<^verbatim>\<open>Localizable\<close> alone: it is not \<^verbatim>\<open>Emittable\<close>,
  and no definition of \<^verbatim>\<open>emit\<close> is found for it.
\<close>

theorem partial_form_emit_counterexample:
  "\<not> is_Emittable C_SemiExpShl \<and> emit_overload C_SemiExpShl = None"
  by (simp add: is_Emittable_def emit_overload_def ancestors_def)

text \<open>
  Claim C7, amended. A class of \<^verbatim>\<open>Nodes.hpp\<close> has the operation \<^verbatim>\<open>emit\<close> exactly when it
  is none of \<^verbatim>\<open>Localizable\<close>, \<^verbatim>\<open>BranchCase\<close>, \<^verbatim>\<open>Branch::Body\<close>, \<^verbatim>\<open>FunArg\<close> and the partial
  forms. Each of the eighteen classes that define it (Identifier, Integer, Float,
  the ten statement kinds, FunctionPrototype, Function, Module, Program and
  BinaryExpression) hands the node to the entry point of the backend for its own
  kind and returns that entry point's signal; the ten binary forms share the entry
  point of BinaryExpression; for the other classes no definition and no entry point
  is reached.
\<close>

theorem emit_of_each_class:
  "(is_Emittable c \<longleftrightarrow>
       c \<notin> set ([C_Localizable, C_BranchCase, C_Branch_Body, C_FunArg] @ partial_forms))
   \<and> emit_overload c =
       (if c \<in> set emitting_classes then Some c
        else if c \<in> set binary_forms then Some C_BinaryExpression
        else None)
   \<and> Id_emit (n1 :: Id) em = Emitter_emit_Id em n1
   \<and> Integer_emit (n2 :: Integer) em = Emitter_emit_Integer em n2
   \<and> Float_emit (n3 :: Float) em = Emitter_emit_Float em n3
   \<and> Return_emit (n4 :: Return) em = Emitter_emit_Return em n4
   \<and> Loop_emit (n5 :: Loop) em = Emitter_emit_Loop em n5
   \<and> VarDeclaration_emit (n6 :: VarDeclaration) em = Emitter_emit_VarDeclaration em n6
   \<and> Assignment_emit (n7 :: Assignment) em = Emitter_emit_Assignment em n7
   \<and> Print_emit (n8 :: Print) em = Emitter_emit_Print em n8
   \<and> Input_emit (n9 :: Input) em = Emitter_emit_Input em n9
   \<and> Abort_emit (n10 :: Abort) em = Emitter_emit_Abort em n10
   \<and> Assert_emit (n11 :: Assert) em = Emitter_emit_Assert em n11
   \<and> FunctionCall_emit (n12 :: FunctionCall) em = Emitter_emit_FunctionCall em n12
   \<and> Branch_emit (n13 :: Branch) em = Emitter_emit_Branch em n13
   \<and> FunctionPrototype_emit (n14 :: FunctionPrototype) em = Emitter_emit_FunctionPrototype em n14
   \<and> Function_emit (n15 :: Function) em = Emitter_emit_Function em n15
   \<and> Module_emit (n16 :: Module) em = Emitter_emit_Module em n16
   \<and> Program_emit (n17 :: Program) em = Emitter_emit_Program em n17
   \<and> BinaryExpression_emit (n18 :: BinaryExpression) em = Emitter_emit_BinaryExpression em n18"
proof -
  have classes: "(is_Emittable c \<longleftrightarrow>
       c \<notin> set ([C_Localizable, C_BranchCase, C_Branch_Body, C_FunArg] @ partial_forms))
   \<and> emit_overload c =
       (if c \<in> set emitting_classes then Some c
        else if c \<in> set binary_forms then Some C_BinaryExpression
        else None)"
    by (cases c) (simp_all add: is_Emittable_def emit_overload_def ancestors_def
        partial_forms_def emitting_classes_def binary_forms_def)
  then show ?thesis
    by (simp only: Id_emit_def Integer_emit_def Float_emit_def Return_emit_def Loop_emit_def
      VarDeclaration_emit_def Assignment_emit_def Print_emit_def Input_emit_def
      Abort_emit_def Assert_emit_def FunctionCall_emit_def Branch_emit_def
      FunctionPrototype_emit_def Function_emit_def Module_emit_def Program_emit_def
      BinaryExpression_emit_def simp_thms)
qed

section \<open>Propagation of failure\<close>

lemma Backend_emit_sequence_append:
  "Backend_emit_sequence emit (xs @ ys) s =
     (case Backend_emit_sequence emit xs s of
        (True, s') \<Rightarrow> Backend_emit_sequence emit ys s'
      | (False, s') \<Rightarrow> (False, s'))"
  by (induction xs arbitrary: s) (auto split: prod.splits bool.splits)

text \<open>
  Claim C8. Emission stops at the first failure. When the statements before \<open>x\<close> are
  emitted with success and the emission of \<open>x\<close> fails, the emission of the sequence
  reports failure in the state the failing emission left, whatever statements follow:
  none of them is emitted. When the emission of the left child of a binary expression
  fails, the emission of the binary expression reports failure in the state the left
  child left: the right child is not emitted.
\<close>

theorem Backend_stops_at_first_failure:
  "(Backend_emit_sequence emit pre s = (True, s1) \<and> emit x s1 = (False, s2)
      \<longrightarrow> Backend_emit_sequence emit (pre @ x # post) s = (False, s2))
   \<and> (emitE (BinaryExpression_getLeft b) t = (False, t1)
      \<longrightarrow> Backend_emit_BinaryExpression emitE combine b t = (False, t1))"
  by (simp add: Backend_emit_sequence_append Backend_emit_BinaryExpression_def)

text \<open>
  With the recording backend: in \<open>[Print, Abort, Input]\<close> where \<open>Abort\<close> fails, the
  record ends at \<open>Abort\<close>; in \<open>x + 1\<close> where identifiers fail, the record holds the
  identifier only.
\<close>

theorem Backend_stops_at_first_failure_witness:
  "Backend_emit_sequence (\<lambda>n. Statement_emit n (recording_Emitter [''Abort'']))
      ([PrintS (Print_new (IdE (Id_new ''x'')))] @ AbortS Abort_new
         # [InputS (Input_new (Id_new ''y''))]) []
     = (False, [''Print'', ''Abort''])
   \<and> Backend_emit_BinaryExpression (\<lambda>e. Expression_emit e (recording_Emitter [''Id'']))
        (\<lambda>op. record_kind [''Id''] ''Operator'')
        (ExpPlus (IdE (Id_new ''x'')) (IntegerE (Integer_new 1))) []
     = (False, [''Id''])"
proof -
  let ?em = "recording_Emitter [''Abort'']"
  have pre: "Backend_emit_sequence (\<lambda>n. Statement_emit n ?em)
      [PrintS (Print_new (IdE (Id_new ''x'')))] [] = (True, [''Print''])"
    by (simp add: Print_emit_def recording_Emitter_def record_kind_def)
  have fail: "Statement_emit (AbortS Abort_new) ?em [''Print''] = (False, [''Print'', ''Abort''])"
    by (simp add: Abort_emit_def recording_Emitter_def record_kind_def)
  have left: "Expression_emit
      (BinaryExpression_getLeft (ExpPlus (IdE (Id_new ''x'')) (IntegerE (Integer_new 1))))
      (recording_Emitter [''Id'']) [] = (False, [''Id''])"
    by (simp add: ExpPlus_def BinaryExpression_new_def Id_emit_def recording_Emitter_def
        record_kind_def)
  note inst = Backend_stops_at_first_failure [where emit = "\<lambda>n. Statement_emit n ?em"
      and pre = "[PrintS (Print_new (IdE (Id_new ''x'')))]" and s = "[]"
      and ?s1.0 = "[''Print'']" and x = "AbortS Abort_new"
      and ?s2.0 = "[''Print'', ''Abort'']"
      and post = "[InputS (Input_new (Id_new ''y''))]"
      and emitE = "\<lambda>e. Expression_emit e (recording_Emitter [''Id''])"
      and b = "ExpPlus (IdE (Id_new ''x'')) (IntegerE (Integer_new 1))"
      and t = "[]" and ?t1.0 = "[''Id'']"
      and combine = "\<lambda>op. record_kind [''Id''] ''Operator''"]
  show ?thesis
    by (rule conjI [OF mp [OF conjunct1 [OF inst] conjI [OF pre fail]]
          mp [OF conjunct2 [OF inst] left]])
qed

end
